theory Spec2Isabelle
  imports Complex_Main
begin

section \<open>Python values used by the control loop\<close>

text \<open>
  The exceptions that the modelled code can raise.  The first three are the tf2 lookup
  failures caught by \<open>TestVel.timer_callback\<close>; the others are the Python and numpy
  failures of the arithmetic and indexing the code performs.
\<close>

datatype pyerror =
    LookupException
  | ConnectivityException
  | ExtrapolationException
  | ValueError
  | ZeroDivisionError
  | IndexError
  | TypeError

text \<open>
  A Python float.  Finite values are real numbers and arithmetic on them is exact: rounding
  and overflow of IEEE doubles are abstracted away, and the two zeros are identified.  The
  non-finite values are kept, because the code tests for them (\<open>math.isnan\<close>,
  \<open>math.isinf\<close>, \<open>np.isnan\<close>) and comparisons with not-a-number are false.
\<close>

datatype pyfloat = Fin real | PInf | NInf | NaN

fun fisnan :: "pyfloat \<Rightarrow> bool" where
  "fisnan NaN = True"
| "fisnan _ = False"

fun fisinf :: "pyfloat \<Rightarrow> bool" where
  "fisinf PInf = True"
| "fisinf NInf = True"
| "fisinf _ = False"

fun fneg :: "pyfloat \<Rightarrow> pyfloat" where
  "fneg (Fin a) = Fin (- a)"
| "fneg PInf = NInf"
| "fneg NInf = PInf"
| "fneg NaN = NaN"

fun fadd :: "pyfloat \<Rightarrow> pyfloat \<Rightarrow> pyfloat" where
  "fadd (Fin a) (Fin b) = Fin (a + b)"
| "fadd NaN _ = NaN"
| "fadd _ NaN = NaN"
| "fadd PInf NInf = NaN"
| "fadd NInf PInf = NaN"
| "fadd PInf _ = PInf"
| "fadd _ PInf = PInf"
| "fadd NInf _ = NInf"
| "fadd _ NInf = NInf"

definition fsub :: "pyfloat \<Rightarrow> pyfloat \<Rightarrow> pyfloat" where
  "fsub a b = fadd a (fneg b)"

text \<open>The product of an infinity with a finite factor: its sign, or not-a-number at zero.\<close>

definition inf_times :: "bool \<Rightarrow> real \<Rightarrow> pyfloat" where
  "inf_times positive a =
     (if a = 0 then NaN else if (0 < a) = positive then PInf else NInf)"

fun fmul :: "pyfloat \<Rightarrow> pyfloat \<Rightarrow> pyfloat" where
  "fmul (Fin a) (Fin b) = Fin (a * b)"
| "fmul NaN _ = NaN"
| "fmul _ NaN = NaN"
| "fmul (Fin a) PInf = inf_times True a"
| "fmul (Fin a) NInf = inf_times False a"
| "fmul PInf (Fin b) = inf_times True b"
| "fmul NInf (Fin b) = inf_times False b"
| "fmul PInf PInf = PInf"
| "fmul NInf NInf = PInf"
| "fmul PInf NInf = NInf"
| "fmul NInf PInf = NInf"

text \<open>\<open>a / b\<close> on Python floats raises \<open>ZeroDivisionError\<close> for a zero divisor.\<close>

fun fdiv :: "pyfloat \<Rightarrow> pyfloat \<Rightarrow> pyerror + pyfloat" where
  "fdiv (Fin a) (Fin b) = (if b = 0 then Inl ZeroDivisionError else Inr (Fin (a / b)))"
| "fdiv NaN (Fin b) = (if b = 0 then Inl ZeroDivisionError else Inr NaN)"
| "fdiv PInf (Fin b) =
     (if b = 0 then Inl ZeroDivisionError else Inr (if 0 < b then PInf else NInf))"
| "fdiv NInf (Fin b) =
     (if b = 0 then Inl ZeroDivisionError else Inr (if 0 < b then NInf else PInf))"
| "fdiv NaN _ = Inr NaN"
| "fdiv _ NaN = Inr NaN"
| "fdiv (Fin a) _ = Inr (Fin 0)"
| "fdiv _ _ = Inr NaN"

text \<open>\<open>x ** 2\<close>.\<close>

definition fsquare :: "pyfloat \<Rightarrow> pyfloat" where
  "fsquare a = fmul a a"

text \<open>\<open>math.sqrt\<close> raises \<open>ValueError\<close> on a negative argument.\<close>

fun fsqrt :: "pyfloat \<Rightarrow> pyerror + pyfloat" where
  "fsqrt (Fin a) = (if a < 0 then Inl ValueError else Inr (Fin (sqrt a)))"
| "fsqrt PInf = Inr PInf"
| "fsqrt NInf = Inl ValueError"
| "fsqrt NaN = Inr NaN"

text \<open>\<open>a < b\<close>: false as soon as one side is not-a-number.\<close>

fun flt :: "pyfloat \<Rightarrow> pyfloat \<Rightarrow> bool" where
  "flt (Fin a) (Fin b) = (a < b)"
| "flt NaN _ = False"
| "flt _ NaN = False"
| "flt _ NInf = False"
| "flt PInf _ = False"
| "flt _ _ = True"

text \<open>\<open>dt == 0\<close>.\<close>

fun fiszero :: "pyfloat \<Rightarrow> bool" where
  "fiszero (Fin a) = (a = 0)"
| "fiszero _ = False"

section \<open>Messages\<close>

text \<open>\<open>geometry_msgs.msg.Vector3\<close>; its fields \<open>x\<close>, \<open>y\<close>, \<open>z\<close> are \<open>vx\<close>, \<open>vy\<close>, \<open>vz\<close> here.\<close>

datatype Vector3 = Vector3 (vx: pyfloat) (vy: pyfloat) (vz: pyfloat)

record Header =
  stamp :: real
  frame_id :: string

record Twist =
  linear :: Vector3
  angular :: Vector3

record TwistStamped =
  twist_header :: Header
  twist :: Twist

record Wrench =
  force :: Vector3
  torque :: Vector3

record WrenchStamped =
  wrench_header :: Header
  wrench :: Wrench

text \<open>A quaternion \<open>(x, y, z, w)\<close>, the rotation of a \<open>TransformStamped\<close>.\<close>

type_synonym Quaternion = "pyfloat \<times> pyfloat \<times> pyfloat \<times> pyfloat"

record TransformStamped =
  rotation :: Quaternion

text \<open>The default-constructed \<open>TwistStamped()\<close>: every number zero, the frame empty.\<close>

definition zero_vector :: Vector3 where
  "zero_vector = Vector3 (Fin 0) (Fin 0) (Fin 0)"

definition TwistStamped_default :: TwistStamped where
  "TwistStamped_default =
     \<lparr>twist_header = \<lparr>stamp = 0, frame_id = ''''\<rparr>,
      twist = \<lparr>linear = zero_vector, angular = zero_vector\<rparr>\<rparr>"

section \<open>Signal conditioning\<close>

text \<open>
  \<open>math.sqrt(vector.x ** 2 + vector.y ** 2 + vector.z ** 2)\<close>, the expression of
  \<open>nullify_small_magnitudes\<close> and of the threshold test in \<open>timer_callback\<close>.
\<close>

definition magnitude :: "Vector3 \<Rightarrow> pyerror + pyfloat" where
  "magnitude v = fsqrt (fadd (fadd (fsquare (vx v)) (fsquare (vy v))) (fsquare (vz v)))"

definition nullify_small_magnitudes :: "Vector3 \<Rightarrow> pyfloat \<Rightarrow> pyerror + Vector3" where
  "nullify_small_magnitudes v threshold =
     (case magnitude v of
        Inl e \<Rightarrow> Inl e
      | Inr m \<Rightarrow>
          if flt m threshold \<or> fisnan m then Inr (Vector3 (Fin 0) (Fin 0) (Fin 0))
          else Inr v)"

section \<open>numpy arrays\<close>

text \<open>
  A two-dimensional array is the list of its rows.  A one-dimensional array of length
  \<open>n\<close> behaves under broadcasting as a \<open>1 \<times> n\<close> array and a scalar as a \<open>1 \<times> 1\<close>
  array, so both are covered.  The entries are finite and arithmetic on them is exact.
\<close>

type_synonym ndarray = "real list list"

definition nrows :: "ndarray \<Rightarrow> nat" where
  "nrows a = length a"

definition ncols :: "ndarray \<Rightarrow> nat" where
  "ncols a = (case a of [] \<Rightarrow> 0 | r # _ \<Rightarrow> length r)"

text \<open>\<open>np.zeros((r, c))\<close>.\<close>

definition zeros :: "nat \<Rightarrow> nat \<Rightarrow> ndarray" where
  "zeros r c = replicate r (replicate c 0)"

text \<open>\<open>np.ones((r, c))\<close>.\<close>

definition ones :: "nat \<Rightarrow> nat \<Rightarrow> ndarray" where
  "ones r c = replicate r (replicate c 1)"

text \<open>
  The broadcasting rule for one dimension: equal sizes, or one of them is 1; otherwise
  numpy raises \<open>ValueError\<close> (operands could not be broadcast together).
\<close>

definition bdim :: "nat \<Rightarrow> nat \<Rightarrow> nat option" where
  "bdim m n = (if m = n then Some m else if m = 1 then Some n else if n = 1 then Some m else None)"

text \<open>Entry \<open>(i, j)\<close> of an array stretched along its dimensions of size 1.\<close>

definition bget :: "ndarray \<Rightarrow> nat \<Rightarrow> nat \<Rightarrow> real" where
  "bget a i j = a ! (if nrows a = 1 then 0 else i) ! (if ncols a = 1 then 0 else j)"

text \<open>An element-wise binary operator (\<open>*\<close>, \<open>+\<close>, \<open>-\<close>) with broadcasting.\<close>

definition broadcast2 :: "(real \<Rightarrow> real \<Rightarrow> real) \<Rightarrow> ndarray \<Rightarrow> ndarray \<Rightarrow> pyerror + ndarray" where
  "broadcast2 f a b =
     (case bdim (nrows a) (nrows b) of
        None \<Rightarrow> Inl ValueError
      | Some r \<Rightarrow>
          (case bdim (ncols a) (ncols b) of
             None \<Rightarrow> Inl ValueError
           | Some c \<Rightarrow> Inr (map (\<lambda>i. map (\<lambda>j. f (bget a i j) (bget b i j)) [0..<c]) [0..<r])))"

text \<open>
  The in-place \<open>a += b\<close>: the broadcast result has to have the shape of \<open>a\<close>, otherwise
  numpy raises \<open>ValueError\<close> (non-broadcastable output operand).
\<close>

definition iadd :: "ndarray \<Rightarrow> ndarray \<Rightarrow> pyerror + ndarray" where
  "iadd a b =
     (case broadcast2 (+) a b of
        Inl e \<Rightarrow> Inl e
      | Inr c \<Rightarrow> if nrows c = nrows a \<and> ncols c = ncols a then Inr c else Inl ValueError)"

text \<open>A float times an array, and an array divided by a float.\<close>

definition scalar_mul :: "real \<Rightarrow> ndarray \<Rightarrow> ndarray" where
  "scalar_mul k a = map (map (\<lambda>v. k * v)) a"

definition scalar_div :: "ndarray \<Rightarrow> real \<Rightarrow> ndarray" where
  "scalar_div a k = map (map (\<lambda>v. v / k)) a"

section \<open>The PID controller (controllers/pid.py)\<close>

text \<open>
  The fields of class \<open>PID\<close>, named as its read accessors name them (the attribute
  \<open>_cmd\<close> is \<open>cmd\<close>, and so on).  \<open>last_time\<close> is \<open>None\<close> until the clock has been
  read once.
\<close>

record PID =
  num_dofs :: nat
  p_gain :: ndarray
  i_gain :: ndarray
  d_gain :: ndarray
  i_min :: real
  i_max :: real
  p_error_last :: ndarray
  p_error :: ndarray
  d_error :: ndarray
  i_error :: ndarray
  cmd :: ndarray
  last_time :: "real option"

definition reset :: "PID \<Rightarrow> PID" where
  "reset s =
     s\<lparr>p_error_last := zeros (num_dofs s) 1,
       p_error := zeros (num_dofs s) 1,
       d_error := zeros (num_dofs s) 1,
       i_error := zeros (num_dofs s) 1,
       cmd := zeros (num_dofs s) (num_dofs s),
       last_time := None\<rparr>"

definition set_gains :: "ndarray \<Rightarrow> ndarray \<Rightarrow> ndarray \<Rightarrow> real \<Rightarrow> real \<Rightarrow> PID \<Rightarrow> PID" where
  "set_gains p i d lo hi s = s\<lparr>p_gain := p, i_gain := i, d_gain := d, i_min := lo, i_max := hi\<rparr>"

text \<open>
  The constructor: \<open>num_dofs\<close> is the constant 6, then \<open>set_gains\<close>, then \<open>reset\<close>.
  The fields written by \<open>reset\<close> do not exist before it; they start here as empty arrays.
\<close>

definition PID_init :: "ndarray \<Rightarrow> ndarray \<Rightarrow> ndarray \<Rightarrow> real \<Rightarrow> real \<Rightarrow> PID" where
  "PID_init p i d lo hi =
     reset (set_gains p i d lo hi
       \<lparr>num_dofs = 6, p_gain = [], i_gain = [], d_gain = [], i_min = 0, i_max = 0,
        p_error_last = [], p_error = [], d_error = [], i_error = [], cmd = [],
        last_time = None\<rparr>)"

text \<open>
  The first step of \<open>update_PID\<close>: with \<open>dt = None\<close> the clock is read (\<open>now\<close> is the
  value of \<open>time.time()\<close>), the first reading initialises \<open>last_time\<close>, and \<open>dt\<close> is
  the time since \<open>last_time\<close>, which then becomes the reading.
\<close>

definition derive_dt :: "PID \<Rightarrow> pyfloat option \<Rightarrow> real \<Rightarrow> pyfloat \<times> PID" where
  "derive_dt s dt now =
     (case dt of
        Some d \<Rightarrow> (d, s)
      | None \<Rightarrow>
          (let cur_time = now;
               s1 = (case last_time s of None \<Rightarrow> s\<lparr>last_time := Some cur_time\<rparr> | Some _ \<Rightarrow> s);
               d = (case last_time s1 of None \<Rightarrow> 0 | Some t \<Rightarrow> cur_time - t)
           in (Fin d, s1\<lparr>last_time := Some cur_time\<rparr>)))"

text \<open>
  The arithmetic of \<open>update_PID\<close> after the early return, for a finite non-zero \<open>dt\<close>.
  Each numpy operation may raise; the state returned with an exception is the state at the
  moment it is raised.
\<close>

definition pid_terms :: "PID \<Rightarrow> real \<Rightarrow> (pyerror + ndarray) \<times> PID" where
  "pid_terms s dt =
     (case broadcast2 (*) (p_gain s) (p_error s) of
        Inl e \<Rightarrow> (Inl e, s)
      | Inr p_term \<Rightarrow>
     (case iadd (i_error s) (scalar_mul dt (p_error s)) of
        Inl e \<Rightarrow> (Inl e, s)
      | Inr ie \<Rightarrow>
     (let s1 = s\<lparr>i_error := ie\<rparr> in
     (case broadcast2 (*) (i_gain s1) (i_error s1) of
        Inl e \<Rightarrow> (Inl e, s1)
      | Inr i_term \<Rightarrow>
     (case broadcast2 (-) (p_error s1) (p_error_last s1) of
        Inl e \<Rightarrow> (Inl e, s1)
      | Inr diff \<Rightarrow>
     (let s2 = s1\<lparr>d_error := scalar_div diff dt\<rparr>;
          s3 = s2\<lparr>p_error_last := p_error s2\<rparr> in
     (case broadcast2 (*) (d_gain s3) (d_error s3) of
        Inl e \<Rightarrow> (Inl e, s3)
      | Inr d_term \<Rightarrow>
     (case broadcast2 (+) p_term i_term of
        Inl e \<Rightarrow> (Inl e, s3)
      | Inr pi_term \<Rightarrow>
     (case broadcast2 (+) pi_term d_term of
        Inl e \<Rightarrow> (Inl e, s3)
      | Inr c \<Rightarrow> (Inr c, s3\<lparr>cmd := c\<rparr>))))))))))"

text \<open>
  \<open>update_PID(p_error, dt)\<close>: the returned value (or the exception raised) and the state
  of the controller afterwards.
\<close>

definition update_PID :: "PID \<Rightarrow> ndarray \<Rightarrow> pyfloat option \<Rightarrow> real \<Rightarrow> (pyerror + ndarray) \<times> PID" where
  "update_PID s err dt now =
     (let (dt1, s1) = derive_dt s dt now;
          s2 = s1\<lparr>p_error := err\<rparr>
      in if fiszero dt1 \<or> fisnan dt1 \<or> fisinf dt1
         then (Inr (zeros (num_dofs s2) (num_dofs s2)), s2)
         else (case dt1 of Fin h \<Rightarrow> pid_terms s2 h | _ \<Rightarrow> (Inr (zeros (num_dofs s2) (num_dofs s2)), s2)))"

section \<open>The node (demo_recorder.py, class TestVel)\<close>

text \<open>What the node sends out: a twist, a joint-velocity vector, or a warning in the log.\<close>

datatype event =
    PublishTwist TwistStamped
  | PublishVel "real list"
  | LogWarn

text \<open>\<open>sensor_msgs.msg.JointState\<close>.\<close>

record JointState =
  name :: "string list"
  position :: "real list"
  velocity :: "real list"

text \<open>
  The attributes of \<open>TestVel\<close> that the callbacks read and write.  \<open>self.cmd\<close> and
  \<open>self.num_dofs\<close> are \<open>node_cmd\<close> and \<open>node_num_dofs\<close> here (the names \<open>cmd\<close> and
  \<open>num_dofs\<close> are the controller's).  \<open>curr_force\<close> does not exist before the first tick
  that conditions a force.
\<close>

record TestVel =
  node_num_dofs :: nat
  joint_names :: "string list option"
  initial_joint_positions :: "real list option"
  joint_positions :: "real list option"
  curr_pos :: "ndarray option"
  curr_vel :: "ndarray option"
  interaction :: bool
  can_move :: bool
  node_cmd :: ndarray
  Kp :: pyfloat
  Kd :: pyfloat
  current_twist :: TwistStamped
  latest_wrench :: "WrenchStamped option"
  curr_force :: "Vector3 option"

text \<open>
  The values that \<open>load_params\<close> assigns to these attributes, for a robot with \<open>n\<close>
  active degrees of freedom (\<open>n\<close> comes from the environment model; the calls of
  \<open>load_params\<close> into the environment, the planner and the tracking controller are
  outside the model).
\<close>

definition load_params :: "nat \<Rightarrow> TestVel" where
  "load_params n =
     \<lparr>node_num_dofs = n, joint_names = None, initial_joint_positions = None,
      joint_positions = None, curr_pos = None, curr_vel = None,
      interaction = False, can_move = True, node_cmd = zeros n n,
      Kp = Fin 1, Kd = Fin (1 / 10), current_twist = TwistStamped_default,
      latest_wrench = None, curr_force = None\<rparr>"

definition wrench_callback :: "WrenchStamped \<Rightarrow> TestVel \<Rightarrow> TestVel" where
  "wrench_callback msg s = s\<lparr>latest_wrench := Some msg\<rparr>"

text \<open>
  \<open>transform_vector\<close>: the rotation itself is scipy's (\<open>Rotation.from_quat(q).apply\<close>),
  a parameter \<open>rot\<close> of the model; it may raise.
\<close>

type_synonym rotation_apply = "Quaternion \<Rightarrow> pyfloat \<times> pyfloat \<times> pyfloat \<Rightarrow> pyerror + pyfloat \<times> pyfloat \<times> pyfloat"

definition transform_vector :: "rotation_apply \<Rightarrow> TransformStamped \<Rightarrow> Vector3 \<Rightarrow> pyerror + Vector3" where
  "transform_vector rot transform v =
     (case rot (rotation transform) (vx v, vy v, vz v) of
        Inl e \<Rightarrow> Inl e
      | Inr (a, b, c) \<Rightarrow> Inr (Vector3 a b c))"

text \<open>
  One axis of the compliance law,
  \<open>(1 / self.Kp) * signal - self.Kd * previous\<close>.
\<close>

definition compliance_axis :: "pyfloat \<Rightarrow> pyfloat \<Rightarrow> pyfloat \<Rightarrow> pyfloat \<Rightarrow> pyerror + pyfloat" where
  "compliance_axis kp kd signal previous =
     (case fdiv (Fin 1) kp of
        Inl e \<Rightarrow> Inl e
      | Inr g \<Rightarrow> Inr (fsub (fmul g signal) (fmul kd previous)))"

definition compliance_vector :: "pyfloat \<Rightarrow> pyfloat \<Rightarrow> Vector3 \<Rightarrow> Vector3 \<Rightarrow> pyerror + Vector3" where
  "compliance_vector kp kd signal previous =
     (case compliance_axis kp kd (vx signal) (vx previous) of
        Inl e \<Rightarrow> Inl e
      | Inr a \<Rightarrow>
     (case compliance_axis kp kd (vy signal) (vy previous) of
        Inl e \<Rightarrow> Inl e
      | Inr b \<Rightarrow>
     (case compliance_axis kp kd (vz signal) (vz previous) of
        Inl e \<Rightarrow> Inl e
      | Inr c \<Rightarrow> Inr (Vector3 a b c))))"

text \<open>
  The twist built on the interaction branch of \<open>timer_callback\<close>: stamped with the
  clock, in frame \<open>tool0\<close>, linear axes from the conditioned force and angular axes from the
  conditioned torque, each damped by the twist of the previous tick.
\<close>

definition compute_twist :: "real \<Rightarrow> Vector3 \<Rightarrow> Vector3 \<Rightarrow> TestVel \<Rightarrow> pyerror + TwistStamped" where
  "compute_twist now f t s =
     (case compliance_vector (Kp s) (Kd s) f (linear (twist (current_twist s))) of
        Inl e \<Rightarrow> Inl e
      | Inr lin \<Rightarrow>
     (case compliance_vector (Kp s) (Kd s) t (angular (twist (current_twist s))) of
        Inl e \<Rightarrow> Inl e
      | Inr ang \<Rightarrow>
          Inr \<lparr>twist_header = \<lparr>stamp = now, frame_id = ''tool0''\<rparr>,
               twist = \<lparr>linear = lin, angular = ang\<rparr>\<rparr>))"

text \<open>
  The body of the \<open>try\<close> in \<open>timer_callback\<close>.  \<open>lookup\<close> is
  \<open>tf_buffer.lookup_transform(target, source, Time())\<close>.  The result is the exception
  raised, if any, the state at that moment and the events so far.
\<close>

type_synonym lookup_transform = "string \<Rightarrow> string \<Rightarrow> pyerror + TransformStamped"

definition timer_body ::
  "lookup_transform \<Rightarrow> rotation_apply \<Rightarrow> real \<Rightarrow> WrenchStamped \<Rightarrow> TestVel
     \<Rightarrow> pyerror option \<times> TestVel \<times> event list" where
  "timer_body lookup rot now w s =
     (case lookup ''tool0'' (frame_id (wrench_header w)) of
        Inl e \<Rightarrow> (Some e, s, [])
      | Inr ft_to_tool0 \<Rightarrow>
     (case transform_vector rot ft_to_tool0 (force (wrench w)) of
        Inl e \<Rightarrow> (Some e, s, [])
      | Inr f \<Rightarrow>
     (case transform_vector rot ft_to_tool0 (torque (wrench w)) of
        Inl e \<Rightarrow> (Some e, s, [])
      | Inr t \<Rightarrow>
     (case nullify_small_magnitudes f (Fin 3) of
        Inl e \<Rightarrow> (Some e, s, [])
      | Inr cf \<Rightarrow>
     (let s1 = s\<lparr>curr_force := Some cf\<rparr> in
     (case nullify_small_magnitudes t (Fin 3) of
        Inl e \<Rightarrow> (Some e, s1, [])
      | Inr ct \<Rightarrow>
     (case magnitude cf of
        Inl e \<Rightarrow> (Some e, s1, [])
      | Inr m \<Rightarrow>
          if flt m (Fin 3)
          then (None,
                s1\<lparr>interaction := False, can_move := True,
                   node_cmd := zeros (node_num_dofs s1) (node_num_dofs s1)\<rparr>, [])
          else
            (let s2 = s1\<lparr>interaction := True, can_move := False,
                          node_cmd := zeros (node_num_dofs s1) (node_num_dofs s1)\<rparr> in
             (case compute_twist now cf ct s2 of
                Inl e \<Rightarrow> (Some e, s2, [])
              | Inr tw \<Rightarrow> (None, s2\<lparr>current_twist := tw\<rparr>, [PublishTwist tw]))))))))))"

text \<open>
  \<open>timer_callback\<close>: nothing without a wrench; otherwise the body, with the three tf2
  exceptions caught and logged, and every other exception passed on.
\<close>

definition caught :: "pyerror \<Rightarrow> bool" where
  "caught e = (e = LookupException \<or> e = ConnectivityException \<or> e = ExtrapolationException)"

definition timer_callback ::
  "lookup_transform \<Rightarrow> rotation_apply \<Rightarrow> real \<Rightarrow> TestVel
     \<Rightarrow> pyerror option \<times> TestVel \<times> event list" where
  "timer_callback lookup rot now s =
     (case latest_wrench s of
        None \<Rightarrow> (None, s, [])
      | Some w \<Rightarrow>
          (case timer_body lookup rot now w s of
             (Some e, s', evs) \<Rightarrow>
               if caught e then (None, s', evs @ [LogWarn]) else (Some e, s', evs)
           | (None, s', evs) \<Rightarrow> (None, s', evs)))"

text \<open>\<open>self.cmd[i][i]\<close>, and the list of these for the indices \<open>is\<close>.\<close>

definition cmd_entry :: "ndarray \<Rightarrow> nat \<Rightarrow> pyerror + real" where
  "cmd_entry c i =
     (if i < length c then (if i < length (c ! i) then Inr (c ! i ! i) else Inl IndexError)
      else Inl IndexError)"

fun diag_entries :: "ndarray \<Rightarrow> nat list \<Rightarrow> pyerror + real list" where
  "diag_entries c [] = Inr []"
| "diag_entries c (i # is) =
     (case cmd_entry c i of
        Inl e \<Rightarrow> Inl e
      | Inr v \<Rightarrow> (case diag_entries c is of Inl e \<Rightarrow> Inl e | Inr vs \<Rightarrow> Inr (v # vs)))"

text \<open>\<open>publish_trajectory\<close> changes no attribute: the exception raised and the events.\<close>

definition publish_trajectory :: "TestVel \<Rightarrow> pyerror option \<times> event list" where
  "publish_trajectory s =
     (case initial_joint_positions s of
        None \<Rightarrow> (None, [])
      | Some _ \<Rightarrow>
          if can_move s then
            (case joint_names s of
               None \<Rightarrow> (Some TypeError, [])
             | Some names \<Rightarrow>
                 (case diag_entries (node_cmd s) [0..<length names] of
                    Inl e \<Rightarrow> (Some e, [])
                  | Inr joint_vel \<Rightarrow> (None, [PublishVel joint_vel])))
          else (None, []))"

text \<open>\<open>np.roll(a, 1)\<close> on a one-dimensional array, and \<open>reshape(n, 1)\<close>.\<close>

definition roll1 :: "'a list \<Rightarrow> 'a list" where
  "roll1 xs = (if xs = [] then [] else last xs # butlast xs)"

definition reshape_column :: "nat \<Rightarrow> real list \<Rightarrow> pyerror + ndarray" where
  "reshape_column n xs = (if length xs = n then Inr (map (\<lambda>v. [v]) xs) else Inl ValueError)"

text \<open>
  \<open>joint_angles_callback\<close>.  The tracking controller is an external collaborator:
  \<open>get_command\<close> stands for \<open>self.controller.get_command\<close>.  The bookkeeping of
  \<open>reached_start\<close> and \<open>reached_goal\<close>, which only reads that controller, is left out.
\<close>

definition joint_angles_callback ::
  "(ndarray \<Rightarrow> ndarray \<Rightarrow> pyerror + ndarray) \<Rightarrow> JointState \<Rightarrow> TestVel \<Rightarrow> pyerror option \<times> TestVel" where
  "joint_angles_callback get_command msg s =
     (let s1 = (case joint_names s of
                  None \<Rightarrow> s\<lparr>joint_names := Some (roll1 (name msg))\<rparr>
                | Some _ \<Rightarrow> s);
          s2 = (case initial_joint_positions s1 of
                  None \<Rightarrow> s1\<lparr>initial_joint_positions := Some (roll1 (position msg)),
                              joint_positions := Some (roll1 (position msg))\<rparr>
                | Some _ \<Rightarrow> s1)
      in
     (case reshape_column (node_num_dofs s2) (roll1 (position msg)) of
        Inl e \<Rightarrow> (Some e, s2)
      | Inr p \<Rightarrow>
     (let s3 = s2\<lparr>curr_pos := Some p\<rparr> in
     (case reshape_column (node_num_dofs s3) (roll1 (velocity msg)) of
        Inl e \<Rightarrow> (Some e, s3)
      | Inr v \<Rightarrow>
     (let s4 = s3\<lparr>curr_vel := Some v\<rparr> in
     (case get_command p v of
        Inl e \<Rightarrow> (Some e, s4)
      | Inr c \<Rightarrow> (None, s4\<lparr>node_cmd := c\<rparr>)))))))"

section \<open>Notions used to state the properties\<close>

text \<open>
  The Euclidean magnitude of a vector as a Python float: not-a-number if a component is,
  otherwise infinite if a component is, otherwise the root of the sum of squares.
\<close>

definition euclidean_magnitude :: "Vector3 \<Rightarrow> pyfloat" where
  "euclidean_magnitude v =
     (case v of
        Vector3 (Fin a) (Fin b) (Fin c) \<Rightarrow> Fin (sqrt (a\<^sup>2 + b\<^sup>2 + c\<^sup>2))
      | _ \<Rightarrow> if fisnan (vx v) \<or> fisnan (vy v) \<or> fisnan (vz v) then NaN else PInf)"

text \<open>An \<open>r \<times> c\<close> array, \<open>r\<close> positive.\<close>

definition is_array :: "nat \<Rightarrow> nat \<Rightarrow> ndarray \<Rightarrow> bool" where
  "is_array r c a = (0 < r \<and> length a = r \<and> list_all (\<lambda>row. length row = c) a)"






section \<open>Sample inputs\<close>

text \<open>A rotation that leaves every vector as it is, and frame lookups that succeed or fail.\<close>

definition rot_identity :: rotation_apply where
  "rot_identity q v = Inr v"

definition lookup_identity :: lookup_transform where
  "lookup_identity target source = Inr \<lparr>rotation = (Fin 0, Fin 0, Fin 0, Fin 1)\<rparr>"

definition lookup_fails :: "pyerror \<Rightarrow> lookup_transform" where
  "lookup_fails e target source = Inl e"

definition wrench_sample :: "Vector3 \<Rightarrow> Vector3 \<Rightarrow> WrenchStamped" where
  "wrench_sample f t =
     \<lparr>wrench_header = \<lparr>stamp = 0, frame_id = ''ft_frame''\<rparr>, wrench = \<lparr>force = f, torque = t\<rparr>\<rparr>"

text \<open>
  A node with three joints that has seen a position sample, holds the tracking command
  with diagonal 1, 2, 3 and has received a wrench with force \<open>f\<close> and no torque.
\<close>

definition tracking_state :: "Vector3 \<Rightarrow> TestVel" where
  "tracking_state f =
     wrench_callback (wrench_sample f zero_vector)
       ((load_params 3)\<lparr>joint_names := Some [''a'', ''b'', ''c''],
                        initial_joint_positions := Some [0, 0, 0],
                        node_cmd := [[1, 0, 0], [0, 2, 0], [0, 0, 3]]\<rparr>)"

text \<open>
  Gains for the controller: the scalar \<open>g\<close> times the \<open>n \<times> n\<close> identity, and an
  error column with the given entries.
\<close>

definition scaled_eye :: "nat \<Rightarrow> real \<Rightarrow> ndarray" where
  "scaled_eye n g = map (\<lambda>i. map (\<lambda>j. if i = j then g else 0) [0..<n]) [0..<n]"

definition column :: "real list \<Rightarrow> ndarray" where
  "column xs = map (\<lambda>v. [v]) xs"

text \<open>
  A controller as the constructor leaves it, with gains 2, 1 and 1/2 times the identity and
  both integral limits 0; an error column; and the controller after one update with that
  error and \<open>dt = 0.5\<close>.
\<close>

definition sample_pid :: PID where
  "sample_pid = PID_init (scaled_eye 6 2) (scaled_eye 6 1) (scaled_eye 6 (1 / 2)) 0 0"

definition sample_error :: ndarray where
  "sample_error = column [1, 2, 3, 4, 5, 6]"

definition sample_pid_updated :: PID where
  "sample_pid_updated = snd (update_PID sample_pid sample_error (Some (Fin (1 / 2))) 0)"

section \<open>Signal conditioning: properties\<close>

lemma sqrt_less_iff_square: "0 \<le> t \<Longrightarrow> (sqrt x < t) = (x < t\<^sup>2)"
  by (metis real_sqrt_less_iff real_sqrt_abs abs_of_nonneg)

text \<open>The expression of the code never raises and computes the Euclidean magnitude.\<close>

lemma magnitude_eq: "magnitude v = Inr (euclidean_magnitude v)"
proof (cases v)
  case (Vector3 a b c)
  show ?thesis
    unfolding Vector3
    by (cases a; cases b; cases c)
      (simp_all add: magnitude_def euclidean_magnitude_def fsquare_def power2_eq_square not_less)
qed

lemma nullify_eq:
  "nullify_small_magnitudes v t =
     Inr (if flt (euclidean_magnitude v) t \<or> fisnan (euclidean_magnitude v)
          then Vector3 (Fin 0) (Fin 0) (Fin 0) else v)"
  by (simp add: nullify_small_magnitudes_def magnitude_eq)


section \<open>The force-processing tick: properties\<close>

lemma compliance_axis_ok:
  "fdiv (Fin 1) kp = Inr g \<Longrightarrow>
   compliance_axis kp kd x p = Inr (fsub (fmul g x) (fmul kd p))"
  by (simp add: compliance_axis_def)

lemma compliance_vector_ok:
  "fdiv (Fin 1) kp = Inr g \<Longrightarrow>
   compliance_vector kp kd v p =
     Inr (Vector3 (fsub (fmul g (vx v)) (fmul kd (vx p)))
                  (fsub (fmul g (vy v)) (fmul kd (vy p)))
                  (fsub (fmul g (vz v)) (fmul kd (vz p))))"
  by (simp add: compliance_vector_def compliance_axis_ok)


lemma compute_twist_ok:
  assumes "fdiv (Fin 1) (Kp s) = Inr g"
  shows "compute_twist now f t s =
     Inr \<lparr>twist_header = \<lparr>stamp = now, frame_id = ''tool0''\<rparr>,
          twist =
            \<lparr>linear =
               Vector3 (fsub (fmul g (vx f)) (fmul (Kd s) (vx (linear (twist (current_twist s))))))
                       (fsub (fmul g (vy f)) (fmul (Kd s) (vy (linear (twist (current_twist s))))))
                       (fsub (fmul g (vz f)) (fmul (Kd s) (vz (linear (twist (current_twist s)))))),
             angular =
               Vector3 (fsub (fmul g (vx t)) (fmul (Kd s) (vx (angular (twist (current_twist s))))))
                       (fsub (fmul g (vy t)) (fmul (Kd s) (vy (angular (twist (current_twist s))))))
                       (fsub (fmul g (vz t)) (fmul (Kd s) (vz (angular (twist (current_twist s))))))\<rparr>\<rparr>"
  using assms by (simp add: compute_twist_def compliance_vector_ok)

text \<open>The twist reads only the gains and the previous twist.\<close>

lemma compute_twist_frame:
  "compute_twist now f t (s\<lparr>curr_force := cf, interaction := b, can_move := c, node_cmd := m\<rparr>)
     = compute_twist now f t s"
  by (simp add: compute_twist_def split: sum.splits)


lemma timer_callback_interaction:
  assumes "latest_wrench s = Some w"
    and "lookup ''tool0'' (frame_id (wrench_header w)) = Inr tf"
    and "transform_vector rot tf (force (wrench w)) = Inr f"
    and "transform_vector rot tf (torque (wrench w)) = Inr t"
    and "nullify_small_magnitudes f (Fin 3) = Inr cf"
    and "nullify_small_magnitudes t (Fin 3) = Inr ct"
    and "magnitude cf = Inr m"
    and "\<not> flt m (Fin 3)"
    and "compute_twist now cf ct s = Inr tw"
  shows "timer_callback lookup rot now s =
           (None, s\<lparr>curr_force := Some cf, interaction := True, can_move := False,
                    node_cmd := zeros (node_num_dofs s) (node_num_dofs s),
                    current_twist := tw\<rparr>, [PublishTwist tw])"
  using assms
  by (simp add: timer_callback_def timer_body_def compute_twist_frame)

text \<open>Evaluation of the tick at the sample inputs.\<close>

lemmas tick_sample_defs =
  tracking_state_def wrench_callback_def wrench_sample_def lookup_identity_def
  lookup_fails_def rot_identity_def transform_vector_def load_params_def
  euclidean_magnitude_def zero_vector_def

lemma nullify_sample_2:
  "nullify_small_magnitudes (Vector3 (Fin 2) (Fin 0) (Fin 0)) (Fin 3) = Inr zero_vector"
  by (simp add: nullify_eq euclidean_magnitude_def zero_vector_def)

lemma nullify_sample_zero:
  "nullify_small_magnitudes zero_vector (Fin 3) = Inr zero_vector"
  by (simp add: nullify_eq euclidean_magnitude_def zero_vector_def)

lemma nullify_sample_big:
  "3 \<le> a \<Longrightarrow>
   nullify_small_magnitudes (Vector3 (Fin a) (Fin 0) (Fin 0)) (Fin 3) = Inr (Vector3 (Fin a) (Fin 0) (Fin 0))"
  by (simp add: nullify_eq euclidean_magnitude_def)

lemma magnitude_sample_zero: "magnitude zero_vector = Inr (Fin 0)"
  by (simp add: magnitude_eq euclidean_magnitude_def zero_vector_def)

lemma magnitude_sample_big: "0 \<le> a \<Longrightarrow> magnitude (Vector3 (Fin a) (Fin 0) (Fin 0)) = Inr (Fin a)"
  by (simp add: magnitude_eq euclidean_magnitude_def)

text \<open>
  Claim C8.  When the transform lookup of a tick fails with one of the three tf2 failures
  (lookup, connectivity, extrapolation), the tick changes nothing: the state after the tick
  is the state before it (mode, motion-permitted flag, command matrix, previous twist and
  every other attribute), nothing is published, no exception leaves the callback, and the
  only effect is one warning in the log.
\<close>

theorem lookup_failure_skips_tick:
  assumes "latest_wrench s = Some w"
    and "lookup ''tool0'' (frame_id (wrench_header w)) = Inl e"
    and "e = LookupException \<or> e = ConnectivityException \<or> e = ExtrapolationException"
  shows "timer_callback lookup rot now s = (None, s, [LogWarn])"
  using assms by (auto simp add: timer_callback_def timer_body_def caught_def)

theorem lookup_failure_skips_tick_witness:
  "latest_wrench (tracking_state (Vector3 (Fin 5) (Fin 0) (Fin 0)))
     = Some (wrench_sample (Vector3 (Fin 5) (Fin 0) (Fin 0)) zero_vector)
   \<and> lookup_fails ExtrapolationException ''tool0''
        (frame_id (wrench_header (wrench_sample (Vector3 (Fin 5) (Fin 0) (Fin 0)) zero_vector)))
       = Inl ExtrapolationException
   \<and> timer_callback (lookup_fails ExtrapolationException) rot_identity 7
        (tracking_state (Vector3 (Fin 5) (Fin 0) (Fin 0)))
       = (None, tracking_state (Vector3 (Fin 5) (Fin 0) (Fin 0)), [LogWarn])
   \<and> node_cmd (tracking_state (Vector3 (Fin 5) (Fin 0) (Fin 0))) = [[1, 0, 0], [0, 2, 0], [0, 0, 3]]"
proof -
  let ?v = "Vector3 (Fin 5) (Fin 0) (Fin 0)"
  have a: "latest_wrench (tracking_state ?v) = Some (wrench_sample ?v zero_vector)"
    by (simp add: tracking_state_def wrench_callback_def)
  have b: "lookup_fails ExtrapolationException ''tool0''
             (frame_id (wrench_header (wrench_sample ?v zero_vector))) = Inl ExtrapolationException"
    by (simp add: lookup_fails_def)
  have c: "node_cmd (tracking_state ?v) = [[1, 0, 0], [0, 2, 0], [0, 0, 3]]"
    by (simp add: tracking_state_def wrench_callback_def)
  from lookup_failure_skips_tick [where lookup = "lookup_fails ExtrapolationException"
      and rot = rot_identity and now = 7, OF a b] a b c
  show ?thesis by simp
qed


text \<open>The sample tick, step by step.\<close>

lemma sample_wrench:
  "latest_wrench (tracking_state v) = Some (wrench_sample v zero_vector)"
  by (simp add: tracking_state_def wrench_callback_def)

lemma sample_lookup:
  "lookup_identity ''tool0'' (frame_id (wrench_header (wrench_sample v zero_vector)))
     = Inr \<lparr>rotation = (Fin 0, Fin 0, Fin 0, Fin 1)\<rparr>"
  by (simp add: lookup_identity_def)

lemma sample_force:
  "transform_vector rot_identity \<lparr>rotation = (Fin 0, Fin 0, Fin 0, Fin 1)\<rparr>
     (force (wrench (wrench_sample v zero_vector))) = Inr v"
  by (simp add: transform_vector_def rot_identity_def wrench_sample_def)

lemma sample_torque:
  "transform_vector rot_identity \<lparr>rotation = (Fin 0, Fin 0, Fin 0, Fin 1)\<rparr>
     (torque (wrench (wrench_sample v zero_vector))) = Inr zero_vector"
  by (simp add: transform_vector_def rot_identity_def wrench_sample_def zero_vector_def)

lemma sample_fields:
  "node_num_dofs (tracking_state v) = 3"
  "Kp (tracking_state v) = Fin 1"
  "Kd (tracking_state v) = Fin (1 / 10)"
  "current_twist (tracking_state v) = TwistStamped_default"
  "node_cmd (tracking_state v) = [[1, 0, 0], [0, 2, 0], [0, 0, 3]]"
  "can_move (tracking_state v)"
  "\<not> interaction (tracking_state v)"
  by (simp_all add: tracking_state_def wrench_callback_def load_params_def)

lemma zeros_3_3: "zeros 3 3 = [[0, 0, 0], [0, 0, 0], [0, 0, 0]]"
  by (simp add: zeros_def numeral_3_eq_3)


text \<open>
  Claim C2, as amended.  On a tick whose lookup and rotations succeed and whose conditioned
  force has a magnitude below 3.0, the node leaves interaction and motion is permitted, but
  the command matrix is not kept: it is overwritten with the zero matrix, whatever the
  tracking controller had put there.  Nothing else changes except the stored conditioned
  force, and nothing is published.
\<close>

theorem free_motion_tick_zeroes_command:
  assumes "latest_wrench s = Some w"
    and "lookup ''tool0'' (frame_id (wrench_header w)) = Inr tf"
    and "transform_vector rot tf (force (wrench w)) = Inr f"
    and "transform_vector rot tf (torque (wrench w)) = Inr t"
    and "nullify_small_magnitudes f (Fin 3) = Inr cf"
    and "magnitude cf = Inr m"
    and "flt m (Fin 3)"
  shows "timer_callback lookup rot now s =
           (None, s\<lparr>curr_force := Some cf, interaction := False, can_move := True,
                    node_cmd := zeros (node_num_dofs s) (node_num_dofs s)\<rparr>, [])"
  using assms
  by (simp add: timer_callback_def timer_body_def nullify_eq [of t])

theorem free_motion_tick_zeroes_command_witness:
  "flt (Fin 0) (Fin 3)
   \<and> timer_callback lookup_identity rot_identity 7 (tracking_state (Vector3 (Fin 2) (Fin 0) (Fin 0)))
       = (None,
          (tracking_state (Vector3 (Fin 2) (Fin 0) (Fin 0)))
            \<lparr>curr_force := Some zero_vector, interaction := False, can_move := True,
             node_cmd := [[0, 0, 0], [0, 0, 0], [0, 0, 0]]\<rparr>, [])"
  using free_motion_tick_zeroes_command [where lookup = lookup_identity and now = 7,
      OF sample_wrench sample_lookup sample_force sample_torque
         nullify_sample_2 magnitude_sample_zero]
  by (simp add: sample_fields zeros_3_3)

text \<open>
  The claim as it was stated fails: a sample of magnitude 2.0 arrives while the command
  matrix holds the tracking command with diagonal 1, 2, 3; after the tick the matrix is
  zero, not the tracking command.
\<close>

theorem free_motion_tick_keeps_command_counterexample:
  "euclidean_magnitude (Vector3 (Fin 2) (Fin 0) (Fin 0)) = Fin 2
   \<and> node_cmd (tracking_state (Vector3 (Fin 2) (Fin 0) (Fin 0))) = [[1, 0, 0], [0, 2, 0], [0, 0, 3]]
   \<and> node_cmd (fst (snd (timer_callback lookup_identity rot_identity 7
        (tracking_state (Vector3 (Fin 2) (Fin 0) (Fin 0))))))
      = [[0, 0, 0], [0, 0, 0], [0, 0, 0]]
   \<and> node_cmd (fst (snd (timer_callback lookup_identity rot_identity 7
        (tracking_state (Vector3 (Fin 2) (Fin 0) (Fin 0))))))
      \<noteq> node_cmd (tracking_state (Vector3 (Fin 2) (Fin 0) (Fin 0)))"
  by (simp add: timer_callback_def timer_body_def tick_sample_defs nullify_eq magnitude_eq
      zeros_3_3)

text \<open>
  Claim C5.  On the interaction branch of a tick (lookup and rotations succeed, the
  conditioned force is not below 3.0, and \<open>1 / Kp\<close> is defined), the new twist has, on
  each linear axis, \<open>(1 / Kp) * force - Kd * previous linear\<close> and, on each angular axis,
  \<open>(1 / Kp) * torque - Kd * previous angular\<close>, with the conditioned force and torque and
  the twist of the previous tick; it is stored as the previous twist and it is the twist
  that is published.  With \<open>Kp = 1.0\<close>, \<open>Kd = 0.1\<close>, a previous linear x of 0.0 and a
  conditioned force x of 4.0, the new linear x is 4.0.
\<close>

theorem compliance_twist_law:
  assumes "latest_wrench s = Some w"
    and "lookup ''tool0'' (frame_id (wrench_header w)) = Inr tf"
    and "transform_vector rot tf (force (wrench w)) = Inr f"
    and "transform_vector rot tf (torque (wrench w)) = Inr t"
    and "nullify_small_magnitudes f (Fin 3) = Inr cf"
    and "nullify_small_magnitudes t (Fin 3) = Inr ct"
    and "magnitude cf = Inr m"
    and "\<not> flt m (Fin 3)"
    and "fdiv (Fin 1) (Kp s) = Inr g"
  shows "linear (twist (current_twist (fst (snd (timer_callback lookup rot now s))))) =
           Vector3 (fsub (fmul g (vx cf)) (fmul (Kd s) (vx (linear (twist (current_twist s))))))
                   (fsub (fmul g (vy cf)) (fmul (Kd s) (vy (linear (twist (current_twist s))))))
                   (fsub (fmul g (vz cf)) (fmul (Kd s) (vz (linear (twist (current_twist s))))))
       \<and> angular (twist (current_twist (fst (snd (timer_callback lookup rot now s))))) =
           Vector3 (fsub (fmul g (vx ct)) (fmul (Kd s) (vx (angular (twist (current_twist s))))))
                   (fsub (fmul g (vy ct)) (fmul (Kd s) (vy (angular (twist (current_twist s))))))
                   (fsub (fmul g (vz ct)) (fmul (Kd s) (vz (angular (twist (current_twist s))))))
       \<and> snd (snd (timer_callback lookup rot now s))
           = [PublishTwist (current_twist (fst (snd (timer_callback lookup rot now s))))]"
proof -
  note tw = compute_twist_ok [OF assms(9), of now cf ct]
  note inter = timer_callback_interaction [where lookup = lookup, OF assms(1-8) tw]
  show ?thesis by (simp add: inter)
qed

theorem compliance_twist_law_witness:
  "\<not> flt (Fin 4) (Fin 3)
   \<and> fdiv (Fin 1) (Kp (tracking_state (Vector3 (Fin 4) (Fin 0) (Fin 0)))) = Inr (Fin 1)
   \<and> Kd (tracking_state (Vector3 (Fin 4) (Fin 0) (Fin 0))) = Fin (1 / 10)
   \<and> vx (linear (twist (current_twist (tracking_state (Vector3 (Fin 4) (Fin 0) (Fin 0)))))) = Fin 0
   \<and> linear (twist (current_twist (fst (snd (timer_callback lookup_identity rot_identity 7
        (tracking_state (Vector3 (Fin 4) (Fin 0) (Fin 0)))))))) = Vector3 (Fin 4) (Fin 0) (Fin 0)
   \<and> angular (twist (current_twist (fst (snd (timer_callback lookup_identity rot_identity 7
        (tracking_state (Vector3 (Fin 4) (Fin 0) (Fin 0)))))))) = Vector3 (Fin 0) (Fin 0) (Fin 0)"
proof -
  let ?v = "Vector3 (Fin 4) (Fin 0) (Fin 0)"
  have n: "nullify_small_magnitudes ?v (Fin 3) = Inr ?v"
    by (rule nullify_sample_big) simp
  have m: "magnitude ?v = Inr (Fin 4)"
    by (rule magnitude_sample_big) simp
  have above: "\<not> flt (Fin 4) (Fin 3)" by simp
  have g: "fdiv (Fin 1) (Kp (tracking_state ?v)) = Inr (Fin 1)"
    by (simp add: sample_fields)
  from compliance_twist_law [where lookup = lookup_identity and now = 7,
      OF sample_wrench sample_lookup sample_force sample_torque n nullify_sample_zero m above g]
    g
  show ?thesis
    by (simp add: sample_fields TwistStamped_default_def zero_vector_def fsub_def)
qed

section \<open>The trajectory velocity emitter: properties\<close>

lemma diag_entries_ok:
  assumes "is_array n n c" and "set is \<subseteq> {..<n}"
  shows "diag_entries c is = Inr (map (\<lambda>i. c ! i ! i) is)"
  using assms
proof (induction "is")
  case Nil
  then show ?case by simp
next
  case (Cons i "is")
  then have "i < length c" "length (c ! i) = n" "i < n"
    by (auto simp add: is_array_def list_all_length)
  with Cons show ?case by (simp add: cmd_entry_def)
qed

text \<open>
  Outside that range the list comprehension raises: with more joint names than the square
  command matrix has rows, \<open>self.cmd[i][i]\<close> fails with \<open>IndexError\<close> and nothing is
  published.
\<close>

lemma diag_entries_append:
  "diag_entries c (xs @ ys) =
     (case diag_entries c xs of
        Inl e \<Rightarrow> Inl e
      | Inr vs \<Rightarrow> (case diag_entries c ys of Inl e \<Rightarrow> Inl e | Inr ws \<Rightarrow> Inr (vs @ ws)))"
  by (induction xs) (simp_all split: sum.splits)

lemma diag_entries_short_matrix:
  assumes "is_array n n c" and "n < k"
  shows "diag_entries c [0..<k] = Inl IndexError"
proof -
  have split: "[0..<k] = [0..<n] @ n # [Suc n..<k]"
    using assms(2) by (metis less_imp_le_nat upt_add_eq_append le0 less_imp_add_positive
        add.left_neutral upt_conv_Cons)
  have front: "diag_entries c [0..<n] = Inr (map (\<lambda>i. c ! i ! i) [0..<n])"
    by (rule diag_entries_ok [OF assms(1)]) auto
  have "cmd_entry c n = Inl IndexError"
    using assms(1) by (simp add: cmd_entry_def is_array_def)
  then show ?thesis
    by (simp add: split diag_entries_append front)
qed

lemma publish_trajectory_short_matrix:
  assumes "initial_joint_positions s \<noteq> None" and "can_move s"
    and "joint_names s = Some names" and "is_array n n (node_cmd s)" and "n < length names"
  shows "publish_trajectory s = (Some IndexError, [])"
  using assms diag_entries_short_matrix [OF assms(4,5)]
  by (auto simp add: publish_trajectory_def)


lemma joint_angles_callback_sample:
  "initial_joint_positions (snd (joint_angles_callback get_command msg s)) \<noteq> None"
  by (simp add: joint_angles_callback_def Let_def split: option.splits sum.splits)



section \<open>Arrays: properties\<close>





















section \<open>The PID controller: properties\<close>







text \<open>Evaluation of the controller at the sample inputs.\<close>

lemmas pid_eval =
  update_PID_def derive_dt_def pid_terms_def PID_init_def reset_def set_gains_def
  broadcast2_def bdim_def nrows_def ncols_def bget_def iadd_def scalar_mul_def scalar_div_def
  zeros_def ones_def scaled_eye_def column_def sample_pid_def sample_error_def

lemma upt_6: "[0..<6] = [0, 1, 2, 3, 4, 5]"
  by (simp add: upt_rec)





lemma sample_pid_update:
  "update_PID sample_pid sample_error (Some (Fin (1 / 2))) 0 =
     (Inr [[7 / 2, 0, 0, 0, 0, 0], [0, 7, 0, 0, 0, 0], [0, 0, 21 / 2, 0, 0, 0],
           [0, 0, 0, 14, 0, 0], [0, 0, 0, 0, 35 / 2, 0], [0, 0, 0, 0, 0, 21]],
      sample_pid
        \<lparr>p_error := sample_error,
         i_error := column [1 / 2, 1, 3 / 2, 2, 5 / 2, 3],
         d_error := column [2, 4, 6, 8, 10, 12],
         p_error_last := sample_error,
         cmd := [[7 / 2, 0, 0, 0, 0, 0], [0, 7, 0, 0, 0, 0], [0, 0, 21 / 2, 0, 0, 0],
                 [0, 0, 0, 14, 0, 0], [0, 0, 0, 0, 35 / 2, 0], [0, 0, 0, 0, 0, 21]]\<rparr>)"
  by (simp add: pid_eval upt_6 eval_nat_numeral)

lemma sample_pid_updated_fields:
  "i_error sample_pid_updated = column [1 / 2, 1, 3 / 2, 2, 5 / 2, 3]"
  "d_error sample_pid_updated = column [2, 4, 6, 8, 10, 12]"
  "p_error_last sample_pid_updated = sample_error"
  "p_error sample_pid_updated = sample_error"
  "last_time sample_pid_updated = None"
  "num_dofs sample_pid_updated = 6"
  "cmd sample_pid_updated =
     [[7 / 2, 0, 0, 0, 0, 0], [0, 7, 0, 0, 0, 0], [0, 0, 21 / 2, 0, 0, 0],
      [0, 0, 0, 14, 0, 0], [0, 0, 0, 0, 35 / 2, 0], [0, 0, 0, 0, 0, 21]]"
  by (simp_all add: sample_pid_updated_def sample_pid_update)
    (simp_all add: sample_pid_def PID_init_def reset_def set_gains_def)



text \<open>
  Claim C3.  For every state of the controller and every explicit \<open>dt\<close> that is zero,
  not-a-number, plus infinity or minus infinity, \<open>update_PID\<close> returns the all-zero
  square matrix and leaves \<open>i_error\<close>, \<open>d_error\<close>, \<open>p_error_last\<close> and \<open>last_time\<close>
  as they were.  When \<open>dt\<close> is \<open>None\<close> and the clock yields a zero step (first call, or
  the same reading as \<open>last_time\<close>), the same holds except that \<open>last_time\<close> is the
  clock reading, which is what the clock step itself writes.
\<close>

theorem update_PID_degenerate_dt:
  "(dt = Fin 0 \<or> dt = NaN \<or> dt = PInf \<or> dt = NInf \<longrightarrow>
      fst (update_PID s err (Some dt) now) = Inr (zeros (num_dofs s) (num_dofs s))
    \<and> i_error (snd (update_PID s err (Some dt) now)) = i_error s
    \<and> d_error (snd (update_PID s err (Some dt) now)) = d_error s
    \<and> p_error_last (snd (update_PID s err (Some dt) now)) = p_error_last s
    \<and> last_time (snd (update_PID s err (Some dt) now)) = last_time s)
   \<and> (last_time s = None \<or> last_time s = Some now \<longrightarrow>
      fst (update_PID s err None now) = Inr (zeros (num_dofs s) (num_dofs s))
    \<and> i_error (snd (update_PID s err None now)) = i_error s
    \<and> d_error (snd (update_PID s err None now)) = d_error s
    \<and> p_error_last (snd (update_PID s err None now)) = p_error_last s
    \<and> last_time (snd (update_PID s err None now)) = Some now)"
  by (auto simp add: update_PID_def derive_dt_def Let_def)

theorem update_PID_degenerate_dt_witness:
  "fst (update_PID sample_pid_updated (column [9, 9, 9, 9, 9, 9]) (Some (Fin 0)) 5) = Inr (zeros 6 6)
   \<and> fst (update_PID sample_pid_updated (column [9, 9, 9, 9, 9, 9]) (Some PInf) 5) = Inr (zeros 6 6)
   \<and> fst (update_PID sample_pid_updated (column [9, 9, 9, 9, 9, 9]) (Some NInf) 5) = Inr (zeros 6 6)
   \<and> fst (update_PID sample_pid_updated (column [9, 9, 9, 9, 9, 9]) (Some NaN) 5) = Inr (zeros 6 6)
   \<and> i_error (snd (update_PID sample_pid_updated (column [9, 9, 9, 9, 9, 9]) (Some NaN) 5))
       = column [1 / 2, 1, 3 / 2, 2, 5 / 2, 3]
   \<and> d_error (snd (update_PID sample_pid_updated (column [9, 9, 9, 9, 9, 9]) (Some NaN) 5))
       = column [2, 4, 6, 8, 10, 12]
   \<and> p_error_last (snd (update_PID sample_pid_updated (column [9, 9, 9, 9, 9, 9]) (Some NaN) 5))
       = sample_error
   \<and> last_time (snd (update_PID sample_pid_updated (column [9, 9, 9, 9, 9, 9]) (Some NaN) 5)) = None
   \<and> last_time sample_pid_updated = None
   \<and> fst (update_PID sample_pid_updated (column [9, 9, 9, 9, 9, 9]) None 5) = Inr (zeros 6 6)
   \<and> i_error (snd (update_PID sample_pid_updated (column [9, 9, 9, 9, 9, 9]) None 5))
       = column [1 / 2, 1, 3 / 2, 2, 5 / 2, 3]
   \<and> last_time (snd (update_PID sample_pid_updated (column [9, 9, 9, 9, 9, 9]) None 5)) = Some 5"
  using update_PID_degenerate_dt [of "Fin 0" sample_pid_updated "column [9, 9, 9, 9, 9, 9]" 5]
    update_PID_degenerate_dt [of PInf sample_pid_updated "column [9, 9, 9, 9, 9, 9]" 5]
    update_PID_degenerate_dt [of NInf sample_pid_updated "column [9, 9, 9, 9, 9, 9]" 5]
    update_PID_degenerate_dt [of NaN sample_pid_updated "column [9, 9, 9, 9, 9, 9]" 5]
  by (simp add: sample_pid_updated_fields)

text \<open>
  Claim C10.  Whenever the effective \<open>dt\<close> of a call (the explicit one, or the one the
  clock step derives) is zero, not-a-number or infinite, the call stores the new error in
  \<open>p_error\<close> before it returns, and the zero matrix it returns is not stored: \<open>cmd\<close>
  is still the command of the last complete update.
\<close>

theorem update_PID_degenerate_dt_frame:
  assumes "fiszero (fst (derive_dt s dt now)) \<or> fisnan (fst (derive_dt s dt now))
             \<or> fisinf (fst (derive_dt s dt now))"
  shows "p_error (snd (update_PID s err dt now)) = err
       \<and> cmd (snd (update_PID s err dt now)) = cmd s
       \<and> fst (update_PID s err dt now) = Inr (zeros (num_dofs s) (num_dofs s))"
  using assms
  by (cases dt) (auto simp add: update_PID_def derive_dt_def Let_def split: option.splits)

theorem update_PID_degenerate_dt_frame_witness:
  "fisnan (fst (derive_dt sample_pid_updated (Some NaN) 5))
   \<and> p_error sample_pid_updated = sample_error
   \<and> p_error (snd (update_PID sample_pid_updated (column [9, 9, 9, 9, 9, 9]) (Some NaN) 5))
       = column [9, 9, 9, 9, 9, 9]
   \<and> fst (update_PID sample_pid_updated (column [9, 9, 9, 9, 9, 9]) (Some NaN) 5) = Inr (zeros 6 6)
   \<and> cmd (snd (update_PID sample_pid_updated (column [9, 9, 9, 9, 9, 9]) (Some NaN) 5))
       = [[7 / 2, 0, 0, 0, 0, 0], [0, 7, 0, 0, 0, 0], [0, 0, 21 / 2, 0, 0, 0],
          [0, 0, 0, 14, 0, 0], [0, 0, 0, 0, 35 / 2, 0], [0, 0, 0, 0, 0, 21]]
   \<and> cmd (snd (update_PID sample_pid_updated (column [9, 9, 9, 9, 9, 9]) (Some NaN) 5))
       \<noteq> zeros 6 6"
proof -
  have d: "fisnan (fst (derive_dt sample_pid_updated (Some NaN) 5))"
    by (simp add: derive_dt_def)
  then have "fiszero (fst (derive_dt sample_pid_updated (Some NaN) 5))
             \<or> fisnan (fst (derive_dt sample_pid_updated (Some NaN) 5))
             \<or> fisinf (fst (derive_dt sample_pid_updated (Some NaN) 5))"
    by simp
  from update_PID_degenerate_dt_frame [OF this, of "column [9, 9, 9, 9, 9, 9]"] d
  show ?thesis
    by (simp add: sample_pid_updated_fields zeros_def eval_nat_numeral)
qed



end
